theory Spec2Isabelle
  imports Complex_Main "HOL-Library.AList"
begin

section \<open>JavaScript values used by the schema editor\<close>

subsection \<open>Strings\<close>

text \<open>
  A JavaScript string is a sequence of UTF-16 code units.  Property names, type tags and
  formats are compared with \<open>===\<close>, which is equality of these sequences.  Literals of
  the source are written \<open>js ''...''\<close>.
\<close>

type_synonym jsstring = "nat list"

definition js :: "string \<Rightarrow> jsstring" where
  "js s = map of_char s"

text \<open>
  \<open>String.prototype.trim\<close> strips WhiteSpace and LineTerminator code points from both
  ends: TAB, LF, VT, FF, CR, SP, NBSP, U+1680, U+2000..U+200A, U+2028, U+2029, U+202F,
  U+205F, U+3000 and U+FEFF.
\<close>

definition is_whitespace :: "nat \<Rightarrow> bool" where
  "is_whitespace c =
     (c = 9 \<or> c = 10 \<or> c = 11 \<or> c = 12 \<or> c = 13 \<or> c = 32 \<or> c = 160 \<or> c = 5760 \<or>
      (8192 \<le> c \<and> c \<le> 8202) \<or> c = 8232 \<or> c = 8233 \<or> c = 8239 \<or> c = 8287 \<or>
      c = 12288 \<or> c = 65279)"

definition trim :: "jsstring \<Rightarrow> jsstring" where
  "trim s = rev (dropWhile is_whitespace (rev (dropWhile is_whitespace s)))"

text \<open>\<open>!newName.trim()\<close>: the empty string is the only falsy string.\<close>

definition blank :: "jsstring \<Rightarrow> bool" where
  "blank s = (trim s = [])"

text \<open>
  \<open>`${n}`\<close> for a non-negative integer below \<open>10^21\<close> (the number of keys of an object
  is far below that): its decimal digits.
\<close>

function nat_to_string :: "nat \<Rightarrow> jsstring" where
  "nat_to_string n =
     (if n < 10 then [48 + n] else nat_to_string (n div 10) @ [48 + n mod 10])"
  by pat_completeness auto
termination
  by (relation "measure id") auto

subsection \<open>Objects with ordered own keys\<close>

text \<open>
  \<open>Record<string, V>\<close> is an ordinary object.  \<open>Object.keys\<close>, \<open>Object.entries\<close> and
  the spread \<open>{...obj}\<close> enumerate its own keys in the order of OrdinaryOwnPropertyKeys:
  first the keys that are array indices (canonical decimal numerals below \<open>2^32 - 1\<close>) in
  ascending numeric order, then every other string key in the order of creation.  An
  object is modelled by the list of its entries in exactly that order.
\<close>

type_synonym 'v jsobj = "(jsstring \<times> 'v) list"

definition is_digit :: "nat \<Rightarrow> bool" where
  "is_digit c = (48 \<le> c \<and> c \<le> 57)"

definition index_value :: "jsstring \<Rightarrow> nat" where
  "index_value k = fold (\<lambda>c acc. acc * 10 + (c - 48)) k 0"

definition is_array_index :: "jsstring \<Rightarrow> bool" where
  "is_array_index k =
     (k \<noteq> [] \<and> list_all is_digit k \<and> (hd k \<noteq> 48 \<or> length k = 1) \<and>
      index_value k < 4294967295)"

definition Object_keys :: "'v jsobj \<Rightarrow> jsstring list" where
  "Object_keys obj = map fst obj"

definition Object_entries :: "'v jsobj \<Rightarrow> (jsstring \<times> 'v) list" where
  "Object_entries obj = obj"

declare Object_entries_def [simp]

definition has_key :: "'v jsobj \<Rightarrow> jsstring \<Rightarrow> bool" where
  "has_key obj k = (k \<in> set (Object_keys obj))"

text \<open>\<open>obj[k]\<close> read: \<open>None\<close> stands for \<open>undefined\<close>.\<close>

definition obj_get :: "'v jsobj \<Rightarrow> jsstring \<Rightarrow> 'v option" where
  "obj_get obj k = map_of obj k"

text \<open>
  A new array-index key is placed among the index keys by its numeric value; every index key
  comes before every other key.
\<close>

fun insert_index :: "jsstring \<Rightarrow> 'v \<Rightarrow> 'v jsobj \<Rightarrow> 'v jsobj" where
  "insert_index k v [] = [(k, v)]"
| "insert_index k v ((k', v') # rest) =
     (if is_array_index k' \<and> index_value k' < index_value k
      then (k', v') # insert_index k v rest
      else (k, v) # (k', v') # rest)"

text \<open>
  Defining a property, as the spread \<open>{...obj}\<close> and a computed key \<open>{[k]: v}\<close> of an
  object literal do (CreateDataProperty): an existing key keeps its position and takes the
  new value; a new key is created at the position its kind determines.  Every string can be
  defined as an own key this way.
\<close>

definition obj_define :: "'v jsobj \<Rightarrow> jsstring \<Rightarrow> 'v \<Rightarrow> 'v jsobj" where
  "obj_define obj k v =
     (if has_key obj k then AList.update k v obj
      else if is_array_index k then insert_index k v obj
      else obj @ [(k, v)])"

text \<open>
  The assignment \<open>obj[k] = v\<close> to an ordinary object, \<open>v\<close> being an object.  An own key
  is updated where it stands.  A name that is no own key is looked up along the prototype
  chain: \<open>__proto__\<close> is an accessor of \<open>Object.prototype\<close>, so the assignment runs its
  setter, which replaces the prototype of \<open>obj\<close> and creates no own key; every other name
  becomes a new own key (the other properties of \<open>Object.prototype\<close> are writable data
  properties).  The prototype of \<open>obj\<close> is \<open>Object.prototype\<close> here, as it is for an
  object literal and for a spread copy.
\<close>

definition obj_assign :: "'v jsobj \<Rightarrow> jsstring \<Rightarrow> 'v \<Rightarrow> 'v jsobj" where
  "obj_assign obj k v =
     (if has_key obj k then AList.update k v obj
      else if k = js ''__proto__'' then obj
      else if is_array_index k then insert_index k v obj
      else obj @ [(k, v)])"

text \<open>\<open>delete obj[k]\<close>.\<close>

definition obj_delete :: "'v jsobj \<Rightarrow> jsstring \<Rightarrow> 'v jsobj" where
  "obj_delete obj k = AList.delete k obj"

section \<open>The schema data model (types/schema.ts)\<close>

record items_descriptor =
  items_type :: jsstring
  items_format :: "jsstring option"

text \<open>
  \<open>SchemaProperty\<close>: \<open>type\<close> is mandatory, every other attribute optional (\<open>None\<close> is an
  absent or \<open>undefined\<close> attribute).  The attribute \<open>multiple\<close> is read and written by
  PropertyBuilder and DynamicForm although the interface does not declare it.
\<close>

datatype SchemaProperty = SchemaProperty
  (sp_type: jsstring)
  (sp_description: "jsstring option")
  (sp_enum: "jsstring list option")
  (sp_format: "jsstring option")
  (sp_multiple: "bool option")
  (sp_items: "items_descriptor option")
  (sp_properties: "(jsstring \<times> SchemaProperty) list option")
  (sp_required: "jsstring list option")

text \<open>The spread updates \<open>{...property, attr: v}\<close>, one per attribute the editor writes.\<close>

definition with_type :: "jsstring \<Rightarrow> SchemaProperty \<Rightarrow> SchemaProperty" where
  "with_type v p = SchemaProperty v (sp_description p) (sp_enum p) (sp_format p)
     (sp_multiple p) (sp_items p) (sp_properties p) (sp_required p)"

definition with_description :: "jsstring option \<Rightarrow> SchemaProperty \<Rightarrow> SchemaProperty" where
  "with_description v p = SchemaProperty (sp_type p) v (sp_enum p) (sp_format p)
     (sp_multiple p) (sp_items p) (sp_properties p) (sp_required p)"

definition with_enum :: "jsstring list option \<Rightarrow> SchemaProperty \<Rightarrow> SchemaProperty" where
  "with_enum v p = SchemaProperty (sp_type p) (sp_description p) v (sp_format p)
     (sp_multiple p) (sp_items p) (sp_properties p) (sp_required p)"

definition with_format :: "jsstring option \<Rightarrow> SchemaProperty \<Rightarrow> SchemaProperty" where
  "with_format v p = SchemaProperty (sp_type p) (sp_description p) (sp_enum p) v
     (sp_multiple p) (sp_items p) (sp_properties p) (sp_required p)"

definition with_multiple :: "bool option \<Rightarrow> SchemaProperty \<Rightarrow> SchemaProperty" where
  "with_multiple v p = SchemaProperty (sp_type p) (sp_description p) (sp_enum p) (sp_format p)
     v (sp_items p) (sp_properties p) (sp_required p)"

definition with_properties ::
  "SchemaProperty jsobj option \<Rightarrow> SchemaProperty \<Rightarrow> SchemaProperty" where
  "with_properties v p = SchemaProperty (sp_type p) (sp_description p) (sp_enum p) (sp_format p)
     (sp_multiple p) (sp_items p) v (sp_required p)"

definition with_required :: "jsstring list option \<Rightarrow> SchemaProperty \<Rightarrow> SchemaProperty" where
  "with_required v p = SchemaProperty (sp_type p) (sp_description p) (sp_enum p) (sp_format p)
     (sp_multiple p) (sp_items p) (sp_properties p) v"

text \<open>\<open>property.properties || {}\<close> and \<open>property.required || []\<close>.\<close>

definition properties_or_empty :: "SchemaProperty \<Rightarrow> SchemaProperty jsobj" where
  "properties_or_empty p = (case sp_properties p of None \<Rightarrow> [] | Some ps \<Rightarrow> ps)"

definition required_or_empty :: "SchemaProperty \<Rightarrow> jsstring list" where
  "required_or_empty p = (case sp_required p of None \<Rightarrow> [] | Some r \<Rightarrow> r)"

text \<open>The default definition of a freshly added property: \<open>{type: 'string', description: ''}\<close>.\<close>

definition default_property :: SchemaProperty where
  "default_property = SchemaProperty (js ''string'') (Some []) None None None None None None"

section \<open>The property tree editor\<close>

subsection \<open>Top level (SchemaBuilder.tsx)\<close>

text \<open>
  The component keeps \<open>properties\<close> and \<open>required\<close> in two state cells; each handler reads
  the current pair and commits a new one.
\<close>

record builder_state =
  properties :: "SchemaProperty jsobj"
  required :: "jsstring list"

definition addProperty :: "builder_state \<Rightarrow> builder_state" where
  "addProperty st =
     (let propertyName = js ''property_'' @ nat_to_string (length (Object_keys (properties st)) + 1)
      in st\<lparr>properties := obj_define (properties st) propertyName default_property\<rparr>)"

definition updateProperty :: "builder_state \<Rightarrow> jsstring \<Rightarrow> SchemaProperty \<Rightarrow> builder_state" where
  "updateProperty st name property = st\<lparr>properties := obj_define (properties st) name property\<rparr>"

definition removeProperty :: "builder_state \<Rightarrow> jsstring \<Rightarrow> builder_state" where
  "removeProperty st name =
     \<lparr>properties = obj_delete (properties st) name,
      required = filter (\<lambda>req. req \<noteq> name) (required st)\<rparr>"

definition toggleRequired :: "builder_state \<Rightarrow> jsstring \<Rightarrow> builder_state" where
  "toggleRequired st name =
     (if name \<in> set (required st)
      then st\<lparr>required := filter (\<lambda>req. req \<noteq> name) (required st)\<rparr>
      else st\<lparr>required := required st @ [name]\<rparr>)"

text \<open>
  \<open>renameProperty\<close>: on the copy, \<open>newProperties[newName] = newProperties[oldName]\<close> is an
  assignment, then \<open>oldName\<close> is deleted.  When \<open>oldName\<close> is not a key, the source binds
  \<open>newName\<close> to \<open>undefined\<close> (or to what \<open>Object.prototype\<close> holds under that name),
  which is no \<open>SchemaProperty\<close>; that outcome is \<open>None\<close>.  The editor only renames the
  entries it lists.
\<close>

definition renameProperty ::
  "builder_state \<Rightarrow> jsstring \<Rightarrow> jsstring \<Rightarrow> builder_state option" where
  "renameProperty st oldName newName =
     (if oldName = newName \<or> blank newName then Some st
      else case obj_get (properties st) oldName of
        None \<Rightarrow> None
      | Some moved \<Rightarrow>
          Some \<lparr>properties = obj_delete (obj_assign (properties st) newName moved) oldName,
                required =
                  (if oldName \<in> set (required st)
                   then map (\<lambda>req. if req = oldName then newName else req) (required st)
                   else required st)\<rparr>)"

subsection \<open>Nested level (PropertyBuilder.tsx)\<close>

text \<open>
  Each handler of a PropertyBuilder whose \<open>property\<close> is an object computes the new
  definition of that property and hands it to \<open>onUpdate\<close>; the functions below return the
  argument of \<open>onUpdate\<close>.
\<close>

definition addNestedProperty :: "SchemaProperty \<Rightarrow> SchemaProperty" where
  "addNestedProperty property =
     (let newPropertyName =
            js ''property_'' @ nat_to_string (length (Object_keys (properties_or_empty property)) + 1);
          newProperties = obj_define (properties_or_empty property) newPropertyName default_property
      in with_properties (Some newProperties) property)"

definition updateNestedProperty ::
  "SchemaProperty \<Rightarrow> jsstring \<Rightarrow> SchemaProperty \<Rightarrow> SchemaProperty" where
  "updateNestedProperty property propName nestedProperty =
     with_properties (Some (obj_define (properties_or_empty property) propName nestedProperty)) property"

definition removeNestedProperty :: "SchemaProperty \<Rightarrow> jsstring \<Rightarrow> SchemaProperty" where
  "removeNestedProperty property propName =
     (let newProperties = obj_delete (properties_or_empty property) propName;
          newRequired = filter (\<lambda>req. req \<noteq> propName) (required_or_empty property)
      in with_required (Some newRequired) (with_properties (Some newProperties) property))"

definition toggleNestedRequired :: "SchemaProperty \<Rightarrow> jsstring \<Rightarrow> SchemaProperty" where
  "toggleNestedRequired property propName =
     (let currentRequired = required_or_empty property;
          newRequired =
            (if propName \<in> set currentRequired
             then filter (\<lambda>req. req \<noteq> propName) currentRequired
             else currentRequired @ [propName])
      in with_required (Some newRequired) property)"

text \<open>\<open>renameNestedProperty\<close>: \<open>None\<close> as for \<open>renameProperty\<close>.\<close>

definition renameNestedProperty ::
  "SchemaProperty \<Rightarrow> jsstring \<Rightarrow> jsstring \<Rightarrow> SchemaProperty option" where
  "renameNestedProperty property oldName newName =
     (if oldName = newName \<or> blank newName then Some property
      else case obj_get (properties_or_empty property) oldName of
        None \<Rightarrow> None
      | Some moved \<Rightarrow>
          (let newProperties = obj_delete (obj_assign (properties_or_empty property) newName moved) oldName;
               currentRequired = required_or_empty property;
               newRequired =
                 (if oldName \<in> set currentRequired
                  then map (\<lambda>req. if req = oldName then newName else req) currentRequired
                  else currentRequired)
           in Some (with_required (Some newRequired) (with_properties (Some newProperties) property))))"

subsection \<open>Attribute handlers of one property (PropertyBuilder.tsx)\<close>

text \<open>
  The Type select: \<open>onUpdate({...property, type: value, properties: value === 'object' ?
  property.properties : undefined})\<close>.
\<close>

definition type_onValueChange :: "SchemaProperty \<Rightarrow> jsstring \<Rightarrow> SchemaProperty" where
  "type_onValueChange property value =
     with_properties (if value = js ''object'' then sp_properties property else None)
       (with_type value property)"

text \<open>
  The Input Type select.  \<open>property.enum || ['']\<close> keeps an enum that is present (every
  array is truthy, the empty one too).
\<close>

definition inputType_onValueChange :: "SchemaProperty \<Rightarrow> jsstring \<Rightarrow> SchemaProperty" where
  "inputType_onValueChange property value =
     (if value = js ''select''
      then with_format None
             (with_enum (case sp_enum property of Some e \<Rightarrow> Some e | None \<Rightarrow> Some [[]]) property)
      else if value = js ''text''
      then with_format None (with_enum None property)
      else with_format (Some value) (with_enum None property))"

text \<open>The Selection Type switch.\<close>

definition multiple_onCheckedChange :: "SchemaProperty \<Rightarrow> bool \<Rightarrow> SchemaProperty" where
  "multiple_onCheckedChange property checked = with_multiple (Some checked) property"

text \<open>Add Option: \<open>[...(property.enum || []), '']\<close>.\<close>

definition addOption_onClick :: "SchemaProperty \<Rightarrow> SchemaProperty" where
  "addOption_onClick property =
     (let newEnum = (case sp_enum property of None \<Rightarrow> [] | Some e \<Rightarrow> e) @ [[]]
      in with_enum (Some newEnum) property)"

text \<open>
  Editing option \<open>index\<close>: \<open>newEnum = [...property.enum!]; newEnum[index] = text\<close>.  The
  spread of an absent enum throws a TypeError, and an index beyond the length leaves holes
  in the array, which is then no list of strings; both outcomes are \<open>None\<close>.  An index
  equal to the length appends.  The editor renders one input per existing option, so it
  only passes indices below the length.
\<close>

definition option_onChange :: "SchemaProperty \<Rightarrow> nat \<Rightarrow> jsstring \<Rightarrow> SchemaProperty option" where
  "option_onChange property index text =
     (case sp_enum property of
        None \<Rightarrow> None
      | Some e \<Rightarrow>
          if index < length e then Some (with_enum (Some (e[index := text])) property)
          else if index = length e then Some (with_enum (Some (e @ [text])) property)
          else None)"

text \<open>\<open>xs.filter((_, i) => i !== index)\<close>.\<close>

definition filter_index :: "'a list \<Rightarrow> nat \<Rightarrow> 'a list" where
  "filter_index xs index = map snd (filter (\<lambda>(i, _). i \<noteq> index) (enumerate 0 xs))"

text \<open>
  Removing option \<open>index\<close>: \<open>enum: newEnum.length > 0 ? newEnum : undefined\<close>.  An absent
  enum throws a TypeError (\<open>None\<close>).
\<close>

definition removeOption_onClick :: "SchemaProperty \<Rightarrow> nat \<Rightarrow> SchemaProperty option" where
  "removeOption_onClick property index =
     (case sp_enum property of
        None \<Rightarrow> None
      | Some e \<Rightarrow>
          (let newEnum = filter_index e index
           in Some (with_enum (if length newEnum > 0 then Some newEnum else None) property)))"

text \<open>The invariant of the enum attribute: when present, it is a non-empty list.\<close>

definition enum_nonempty :: "SchemaProperty \<Rightarrow> bool" where
  "enum_nonempty property = (case sp_enum property of None \<Rightarrow> True | Some e \<Rightarrow> e \<noteq> [])"

section \<open>The validator compiler (DynamicForm.tsx)\<close>

text \<open>
  The zod schemas that \<open>createZodSchema\<close> builds, as terms: \<open>z.string()\<close>,
  \<open>z.string().email(...)\<close>, \<open>z.date()\<close>, \<open>z.number()\<close>, \<open>z.boolean()\<close>, \<open>z.any()\<close>,
  \<open>z.array(t)\<close>, \<open>t.optional()\<close> and \<open>z.object(shape)\<close>.
\<close>

datatype zod =
    ZString
  | ZEmail
  | ZDate
  | ZNumber
  | ZBoolean
  | ZAny
  | ZArray zod
  | ZOptional zod
  | ZObject "(jsstring \<times> zod) list"


section \<open>Form values and validation\<close>

subsection \<open>Numbers and \<open>parseFloat\<close>\<close>

text \<open>
  A number is \<open>NaN\<close>, an infinity or a finite binary64 value, kept as the rational it
  denotes; the two zeros are one value.
\<close>

datatype jsnum = NaN | PosInfinity | NegInfinity | Finite rat

text \<open>
  The Number value for a rational: the nearest binary64 value, ties to the even
  significand.  \<open>binary_exponent q\<close> is the integer part of the binary logarithm of a
  positive \<open>q\<close>; below \<open>2^-1022\<close> the spacing of the subnormal values applies; a result
  of \<open>2^1024\<close> or more is an infinity.
\<close>

function log2_floor :: "nat \<Rightarrow> nat" where
  "log2_floor n = (if n < 2 then 0 else Suc (log2_floor (n div 2)))"
  by pat_completeness auto
termination
  by (relation "measure id") auto

definition binary_exponent :: "rat \<Rightarrow> int" where
  "binary_exponent q =
     (if 1 \<le> q then int (log2_floor (nat \<lfloor>q\<rfloor>))
      else - int (Suc (log2_floor (nat \<lceil>1 / q\<rceil> - 1))))"

definition pow2 :: "int \<Rightarrow> rat" where
  "pow2 e = (if 0 \<le> e then 2 ^ nat e else 1 / 2 ^ nat (- e))"

definition round_half_even :: "rat \<Rightarrow> int" where
  "round_half_even m =
     (let f = \<lfloor>m\<rfloor>; rest = m - of_int f
      in if rest < 1 / 2 then f
         else if 1 / 2 < rest then f + 1
         else if even f then f else f + 1)"

definition round_magnitude :: "rat \<Rightarrow> rat" where
  "round_magnitude q =
     (if q = 0 then 0
      else
        (let e = max (binary_exponent q) (- 1022);
             quantum = pow2 (e - 52)
         in of_int (round_half_even (q / quantum)) * quantum))"

definition to_binary64 :: "rat \<Rightarrow> jsnum" where
  "to_binary64 q =
     (let r = round_magnitude \<bar>q\<bar>
      in if pow2 1024 \<le> r then (if 0 < q then PosInfinity else NegInfinity)
         else Finite (if 0 \<le> q then r else - r))"

text \<open>
  \<open>parseFloat\<close> drops leading white space and reads the longest prefix that is a
  StrDecimalLiteral: an optional sign, then \<open>Infinity\<close>, or digits with an optional
  fraction, or a dot followed by digits, each with an optional exponent.  With no such
  prefix the result is \<open>NaN\<close>; otherwise it is the Number value for the decimal value
  of the prefix.
\<close>

definition exponent_part :: "jsstring \<Rightarrow> rat" where
  "exponent_part s =
     (case s of
        [] \<Rightarrow> 1
      | c # r \<Rightarrow>
          if c = 101 \<or> c = 69 then
            (case r of
               [] \<Rightarrow> 1
             | d # r' \<Rightarrow>
                 if d = 43 \<and> takeWhile is_digit r' \<noteq> [] then 10 ^ index_value (takeWhile is_digit r')
                 else if d = 45 \<and> takeWhile is_digit r' \<noteq> [] then 1 / 10 ^ index_value (takeWhile is_digit r')
                 else if is_digit d then 10 ^ index_value (takeWhile is_digit r)
                 else 1)
          else 1)"

definition parse_unsigned :: "jsstring \<Rightarrow> jsnum" where
  "parse_unsigned s =
     (if take 8 s = js ''Infinity'' then PosInfinity
      else
        (let int_digits = takeWhile is_digit s;
             after_int = dropWhile is_digit s;
             has_dot = (after_int \<noteq> [] \<and> hd after_int = 46);
             frac_digits = (if has_dot then takeWhile is_digit (tl after_int) else []);
             after_frac = (if has_dot then dropWhile is_digit (tl after_int) else after_int)
         in if int_digits = [] \<and> frac_digits = [] then NaN
            else to_binary64
                   (of_nat (index_value (int_digits @ frac_digits)) / 10 ^ length frac_digits
                    * exponent_part after_frac)))"

definition negate :: "jsnum \<Rightarrow> jsnum" where
  "negate n = (case n of NaN \<Rightarrow> NaN | PosInfinity \<Rightarrow> NegInfinity | NegInfinity \<Rightarrow> PosInfinity
               | Finite q \<Rightarrow> Finite (- q))"

definition parseFloat :: "jsstring \<Rightarrow> jsnum" where
  "parseFloat s =
     (case dropWhile is_whitespace s of
        [] \<Rightarrow> NaN
      | c # r \<Rightarrow>
          if c = 43 then parse_unsigned r
          else if c = 45 then negate (parse_unsigned r)
          else parse_unsigned (c # r))"

text \<open>
  Whether a text begins with a number, read off the characters alone: after leading white
  space and an optional sign comes \<open>Infinity\<close>, or a digit, or a dot and a digit.
\<close>

definition starts_unsigned_literal :: "jsstring \<Rightarrow> bool" where
  "starts_unsigned_literal t =
     (take 8 t = js ''Infinity'' \<or>
      (case t of
         [] \<Rightarrow> False
       | c # r \<Rightarrow> is_digit c \<or> (c = 46 \<and> (case r of [] \<Rightarrow> False | d # _ \<Rightarrow> is_digit d))))"



subsection \<open>Values\<close>

text \<open>
  The values a form field can hold.  \<open>VDate valid\<close> is a \<open>Date\<close> object, \<open>valid\<close> telling
  whether its time value is a number; \<open>VFunction\<close> is any function.
\<close>

datatype jsval =
    VUndefined
  | VNull
  | VString jsstring
  | VNumber jsnum
  | VBoolean bool
  | VDate bool
  | VFunction
  | VArray "jsval list"
  | VObject "(jsstring \<times> jsval) list"

text \<open>
  Reading \<open>data[k]\<close> from the plain object of submitted values.  A name that is no own
  key is read from \<open>Object.prototype\<close>: \<open>__proto__\<close> reads the prototype itself (an
  object without enumerable keys), the inherited methods read as functions, and every
  other name reads \<open>undefined\<close>.
\<close>

definition inherited_methods :: "jsstring list" where
  "inherited_methods =
     [js ''constructor'', js ''hasOwnProperty'', js ''isPrototypeOf'',
      js ''propertyIsEnumerable'', js ''toLocaleString'', js ''toString'', js ''valueOf'',
      js ''__defineGetter__'', js ''__defineSetter__'', js ''__lookupGetter__'',
      js ''__lookupSetter__'']"

definition field_value :: "jsval jsobj \<Rightarrow> jsstring \<Rightarrow> jsval" where
  "field_value data k =
     (case obj_get data k of
        Some v \<Rightarrow> v
      | None \<Rightarrow>
          if k = js ''__proto__'' then VObject []
          else if k \<in> set inherited_methods then VFunction
          else VUndefined)"

subsection \<open>What a zod schema accepts\<close>

text \<open>
  Success of \<open>schema.safeParse(value)\<close> for the schemas above, as the zod library documents
  them: \<open>z.number()\<close> rejects \<open>NaN\<close>, \<open>z.date()\<close> wants a \<open>Date\<close> with a valid time,
  \<open>t.optional()\<close> also accepts \<open>undefined\<close>, \<open>z.object(shape)\<close> wants an object whose value
  at every key of the shape is accepted by that key's schema (other keys are ignored).  The
  syntax check of \<open>.email()\<close> is a parameter.
\<close>

fun zod_accepts :: "(jsstring \<Rightarrow> bool) \<Rightarrow> zod \<Rightarrow> jsval \<Rightarrow> bool"
  and shape_accepts :: "(jsstring \<Rightarrow> bool) \<Rightarrow> (jsstring \<times> zod) list \<Rightarrow> jsval jsobj \<Rightarrow> bool"
  and elements_accepted :: "(jsstring \<Rightarrow> bool) \<Rightarrow> zod \<Rightarrow> jsval list \<Rightarrow> bool"
where
  "zod_accepts valid_email ZString v = (case v of VString _ \<Rightarrow> True | _ \<Rightarrow> False)"
| "zod_accepts valid_email ZEmail v = (case v of VString s \<Rightarrow> valid_email s | _ \<Rightarrow> False)"
| "zod_accepts valid_email ZDate v = (case v of VDate valid \<Rightarrow> valid | _ \<Rightarrow> False)"
| "zod_accepts valid_email ZNumber v = (case v of VNumber n \<Rightarrow> n \<noteq> NaN | _ \<Rightarrow> False)"
| "zod_accepts valid_email ZBoolean v = (case v of VBoolean _ \<Rightarrow> True | _ \<Rightarrow> False)"
| "zod_accepts valid_email ZAny v = True"
| "zod_accepts valid_email (ZArray t) v =
     (case v of VArray xs \<Rightarrow> elements_accepted valid_email t xs | _ \<Rightarrow> False)"
| "zod_accepts valid_email (ZOptional t) v = (v = VUndefined \<or> zod_accepts valid_email t v)"
| "zod_accepts valid_email (ZObject shape) v =
     (case v of VObject data \<Rightarrow> shape_accepts valid_email shape data | _ \<Rightarrow> False)"
| "shape_accepts valid_email [] data = True"
| "shape_accepts valid_email ((k, t) # shape) data =
     (zod_accepts valid_email t (field_value data k) \<and> shape_accepts valid_email shape data)"
| "elements_accepted valid_email t [] = True"
| "elements_accepted valid_email t (x # xs) =
     (zod_accepts valid_email t x \<and> elements_accepted valid_email t xs)"

subsection \<open>The number box and submission (DynamicForm.tsx)\<close>



section \<open>Multi-step partitioning (DynamicForm.tsx)\<close>

text \<open>\<open>xs.slice(start, end)\<close> for \<open>0 \<le> start \<le> end\<close>; both ends are clamped to the length.\<close>

definition slice :: "'a list \<Rightarrow> nat \<Rightarrow> nat \<Rightarrow> 'a list" where
  "slice xs start end = take (end - start) (drop start xs)"

text \<open>
  \<open>stepsCount = multiStep ? Math.ceil(propertyEntries.length / 3) : 1\<close>.  The quotient is
  taken exactly; for a length below \<open>2^53\<close> the ceiling of the binary64 quotient is the
  same integer.
\<close>

definition stepsCount :: "bool \<Rightarrow> 'a list \<Rightarrow> nat" where
  "stepsCount multiStep propertyEntries =
     (if multiStep then nat \<lceil>(of_nat (length propertyEntries) :: rat) / 3\<rceil> else 1)"

definition currentStepProperties :: "bool \<Rightarrow> 'a list \<Rightarrow> nat \<Rightarrow> 'a list" where
  "currentStepProperties multiStep propertyEntries currentStep =
     (if multiStep then slice propertyEntries (currentStep * 3) ((currentStep + 1) * 3)
      else propertyEntries)"

text \<open>Next and Previous move \<open>currentStep\<close> by one inside \<open>0 .. stepsCount - 1\<close>.\<close>

definition handleNext :: "nat \<Rightarrow> nat \<Rightarrow> nat" where
  "handleNext steps currentStep = (if currentStep + 1 < steps then currentStep + 1 else currentStep)"

definition handlePrevious :: "nat \<Rightarrow> nat" where
  "handlePrevious currentStep = (if currentStep > 0 then currentStep - 1 else currentStep)"

text \<open>The render plan of the multi-step form: the property list of every step, in order.\<close>

definition step_plan :: "bool \<Rightarrow> 'a list \<Rightarrow> 'a list list" where
  "step_plan multiStep propertyEntries =
     map (currentStepProperties multiStep propertyEntries) [0 ..< stepsCount multiStep propertyEntries]"

section \<open>Sample schema values\<close>

text \<open>\<open>{type: 'number'}\<close>, and an object property with the children \<open>a\<close> (required) and \<open>c\<close>.\<close>

definition number_property :: SchemaProperty where
  "number_property = SchemaProperty (js ''number'') None None None None None None None"

definition object_property :: SchemaProperty where
  "object_property =
     SchemaProperty (js ''object'') None None None None None
       (Some [(js ''a'', number_property), (js ''c'', default_property)]) (Some [js ''a''])"


text \<open>A string property offered as a select with the single option \<open>red\<close>.\<close>

definition select_property :: SchemaProperty where
  "select_property =
     SchemaProperty (js ''string'') (Some []) (Some [js ''red'']) None None None None None"


section \<open>Lemmas about the spread updates and objects\<close>

lemma with_required_sel [simp]:
  "sp_required (with_required v p) = v"
  "sp_properties (with_required v p) = sp_properties p"
  "sp_type (with_required v p) = sp_type p"
  "sp_enum (with_required v p) = sp_enum p"
  "sp_format (with_required v p) = sp_format p"
  by (simp_all add: with_required_def)

lemma with_properties_sel [simp]:
  "sp_properties (with_properties v p) = v"
  "sp_required (with_properties v p) = sp_required p"
  "sp_type (with_properties v p) = sp_type p"
  "sp_enum (with_properties v p) = sp_enum p"
  "sp_format (with_properties v p) = sp_format p"
  by (simp_all add: with_properties_def)

lemma with_type_sel [simp]:
  "sp_type (with_type v p) = v"
  "sp_properties (with_type v p) = sp_properties p"
  "sp_required (with_type v p) = sp_required p"
  "sp_enum (with_type v p) = sp_enum p"
  "sp_format (with_type v p) = sp_format p"
  by (simp_all add: with_type_def)

lemma with_enum_sel [simp]:
  "sp_enum (with_enum v p) = v"
  "sp_type (with_enum v p) = sp_type p"
  "sp_properties (with_enum v p) = sp_properties p"
  "sp_required (with_enum v p) = sp_required p"
  "sp_format (with_enum v p) = sp_format p"
  by (simp_all add: with_enum_def)

lemma with_format_sel [simp]:
  "sp_format (with_format v p) = v"
  "sp_enum (with_format v p) = sp_enum p"
  "sp_type (with_format v p) = sp_type p"
  "sp_properties (with_format v p) = sp_properties p"
  "sp_required (with_format v p) = sp_required p"
  by (simp_all add: with_format_def)

lemma required_or_empty_with_required [simp]:
  "required_or_empty (with_required (Some r) p) = r"
  by (simp add: required_or_empty_def)

lemma properties_or_empty_with_required [simp]:
  "properties_or_empty (with_required v p) = properties_or_empty p"
  by (simp add: properties_or_empty_def)

lemma properties_or_empty_with_properties [simp]:
  "properties_or_empty (with_properties (Some ps) p) = ps"
  by (simp add: properties_or_empty_def)

lemma required_or_empty_with_properties [simp]:
  "required_or_empty (with_properties v p) = required_or_empty p"
  by (simp add: required_or_empty_def)

lemma map_of_insert_index:
  "map_of (insert_index k v obj) = (map_of obj)(k \<mapsto> v)"
  by (induction obj) (auto simp: fun_eq_iff)

lemma map_of_append_fresh:
  "\<not> has_key obj k \<Longrightarrow> map_of (obj @ [(k, v)]) = (map_of obj)(k \<mapsto> v)"
  by (induction obj) (auto simp: has_key_def Object_keys_def fun_eq_iff)

lemma obj_get_obj_define:
  "obj_get (obj_define obj k v) k' = (if k' = k then Some v else obj_get obj k')"
proof (cases "has_key obj k")
  case True
  then show ?thesis by (simp add: obj_get_def obj_define_def update_conv')
next
  case False
  show ?thesis
  proof (cases "is_array_index k")
    case True
    with False show ?thesis by (simp add: obj_get_def obj_define_def map_of_insert_index)
  next
    case no_index: False
    from False have "map_of (obj_define obj k v) = (map_of obj)(k \<mapsto> v)"
      using no_index map_of_append_fresh [OF False] by (simp only: obj_define_def if_False)
    then show ?thesis by (simp add: obj_get_def)
  qed
qed







lemma Object_keys_obj_define_existing:
  "has_key obj k \<Longrightarrow> Object_keys (obj_define obj k v) = Object_keys obj"
  by (simp add: obj_define_def Object_keys_def update_keys has_key_def)



lemma blank_two_spaces: "blank (js ''  '')"
  by (simp add: blank_def trim_def js_def is_whitespace_def)

section \<open>Toggling the required flag\<close>

text \<open>
  C9.  Toggling required twice in succession on a name returns the required list to its
  original membership (equality as sets), at the top level and at a nested level; this
  holds for every name, in particular for every name present in the mapping.  The property
  mapping is the same after the two toggles.
\<close>

theorem toggleRequired_twice_membership:
  "set (required (toggleRequired (toggleRequired st name) name)) = set (required st)
   \<and> properties (toggleRequired (toggleRequired st name) name) = properties st
   \<and> set (required_or_empty (toggleNestedRequired (toggleNestedRequired property name) name))
       = set (required_or_empty property)
   \<and> sp_properties (toggleNestedRequired (toggleNestedRequired property name) name)
       = sp_properties property"
  by (auto simp: toggleRequired_def toggleNestedRequired_def Let_def)

text \<open>
  C5, as the code has it.  Toggling required on a name never changes the property mapping;
  it removes the name from the required list when it is there and appends it when it is
  not, and the other names stay as they were, in their order.  The handlers do not look
  at the mapping, so this is so whether or not a property of that name exists.
\<close>

theorem toggleRequired_effect:
  "properties (toggleRequired st name) = properties st
   \<and> set (required (toggleRequired st name)) =
       (if name \<in> set (required st) then set (required st) - {name}
        else insert name (set (required st)))
   \<and> filter (\<lambda>req. req \<noteq> name) (required (toggleRequired st name)) =
       filter (\<lambda>req. req \<noteq> name) (required st)
   \<and> sp_properties (toggleNestedRequired property name) = sp_properties property
   \<and> set (required_or_empty (toggleNestedRequired property name)) =
       (if name \<in> set (required_or_empty property) then set (required_or_empty property) - {name}
        else insert name (set (required_or_empty property)))
   \<and> filter (\<lambda>req. req \<noteq> name) (required_or_empty (toggleNestedRequired property name)) =
       filter (\<lambda>req. req \<noteq> name) (required_or_empty property)"
  by (auto simp: toggleRequired_def toggleNestedRequired_def Let_def)

text \<open>
  C5 as stated fails: with the single property \<open>name\<close> and an empty required list, toggling
  required on \<open>ghost\<close>, which is no property, is not a no-op; \<open>ghost\<close> enters the required
  list.
\<close>

theorem toggleRequired_absent_property_counterexample:
  "\<not> has_key (properties \<lparr>properties = [(js ''name'', default_property)], required = []\<rparr>) (js ''ghost'')
   \<and> toggleRequired \<lparr>properties = [(js ''name'', default_property)], required = []\<rparr> (js ''ghost'')
       = \<lparr>properties = [(js ''name'', default_property)], required = [js ''ghost'']\<rparr>
   \<and> toggleRequired \<lparr>properties = [(js ''name'', default_property)], required = []\<rparr> (js ''ghost'')
       \<noteq> \<lparr>properties = [(js ''name'', default_property)], required = []\<rparr>"
  by (simp add: toggleRequired_def has_key_def Object_keys_def js_def)

section \<open>Renaming a property\<close>

text \<open>
  C7.  Renaming a property to a blank string or to its own current name leaves the
  properties mapping and the required list exactly as they were, at the top level (the
  state is the same) and at a nested level (no update is sent, the property is the same);
  neither is an error.
\<close>

theorem rename_blank_or_same_is_noop:
  "oldName = newName \<or> blank newName \<Longrightarrow>
     renameProperty st oldName newName = Some st
     \<and> renameNestedProperty property oldName newName = Some property"
  by (simp add: renameProperty_def renameNestedProperty_def)

theorem rename_blank_or_same_is_noop_witness:
  "renameProperty \<lparr>properties = [(js ''name'', default_property)], required = [js ''name'']\<rparr>
       (js ''name'') (js ''  '')
     = Some \<lparr>properties = [(js ''name'', default_property)], required = [js ''name'']\<rparr>
   \<and> renameNestedProperty default_property (js ''name'') (js ''  '') = Some default_property"
proof -
  have h: "js ''name'' = js ''  '' \<or> blank (js ''  '')"
    using blank_two_spaces by simp
  show ?thesis
    by (rule rename_blank_or_same_is_noop [OF h])
qed


















section \<open>Adding a property\<close>

lemma addProperty_existing_name:
  assumes "has_key (properties st) (js ''property_'' @ nat_to_string (length (Object_keys (properties st)) + 1))"
  shows "Object_keys (properties (addProperty st)) = Object_keys (properties st)
     \<and> obj_get (properties (addProperty st))
          (js ''property_'' @ nat_to_string (length (Object_keys (properties st)) + 1))
         = Some default_property
     \<and> (\<forall>k. k \<noteq> js ''property_'' @ nat_to_string (length (Object_keys (properties st)) + 1) \<longrightarrow>
           obj_get (properties (addProperty st)) k = obj_get (properties st) k)
     \<and> required (addProperty st) = required st"
  using assms by (simp add: addProperty_def Let_def Object_keys_obj_define_existing obj_get_obj_define)

lemma addNestedProperty_existing_name:
  assumes "has_key (properties_or_empty property)
             (js ''property_'' @ nat_to_string (length (Object_keys (properties_or_empty property)) + 1))"
  shows "Object_keys (properties_or_empty (addNestedProperty property))
           = Object_keys (properties_or_empty property)
     \<and> obj_get (properties_or_empty (addNestedProperty property))
          (js ''property_'' @ nat_to_string (length (Object_keys (properties_or_empty property)) + 1))
         = Some default_property
     \<and> (\<forall>k. k \<noteq> js ''property_'' @ nat_to_string (length (Object_keys (properties_or_empty property)) + 1) \<longrightarrow>
           obj_get (properties_or_empty (addNestedProperty property)) k
             = obj_get (properties_or_empty property) k)
     \<and> sp_required (addNestedProperty property) = sp_required property"
  using assms by (simp add: addNestedProperty_def Let_def Object_keys_obj_define_existing obj_get_obj_define)

text \<open>
  C10.  When the generated name \<open>property_<count+1>\<close> is already a key of the sibling
  mapping, Add property keeps the list of keys as it is (same keys, same positions, so the
  count does not grow), puts the default definition \<open>{type: 'string', description: ''}\<close>
  under that key and leaves every other entry and the required list alone; the same one
  level down for Add Nested Property.
\<close>

theorem addProperty_collision_replaces:
  assumes "has_key (properties st) (js ''property_'' @ nat_to_string (length (Object_keys (properties st)) + 1))"
    and "has_key (properties_or_empty property)
             (js ''property_'' @ nat_to_string (length (Object_keys (properties_or_empty property)) + 1))"
  shows "(Object_keys (properties (addProperty st)) = Object_keys (properties st)
     \<and> obj_get (properties (addProperty st))
          (js ''property_'' @ nat_to_string (length (Object_keys (properties st)) + 1))
         = Some default_property
     \<and> (\<forall>k. k \<noteq> js ''property_'' @ nat_to_string (length (Object_keys (properties st)) + 1) \<longrightarrow>
           obj_get (properties (addProperty st)) k = obj_get (properties st) k)
     \<and> required (addProperty st) = required st)
   \<and> (Object_keys (properties_or_empty (addNestedProperty property))
           = Object_keys (properties_or_empty property)
     \<and> obj_get (properties_or_empty (addNestedProperty property))
          (js ''property_'' @ nat_to_string (length (Object_keys (properties_or_empty property)) + 1))
         = Some default_property
     \<and> (\<forall>k. k \<noteq> js ''property_'' @ nat_to_string (length (Object_keys (properties_or_empty property)) + 1) \<longrightarrow>
           obj_get (properties_or_empty (addNestedProperty property)) k
             = obj_get (properties_or_empty property) k)
     \<and> sp_required (addNestedProperty property) = sp_required property)"
  using addProperty_existing_name [OF assms(1)] addNestedProperty_existing_name [OF assms(2)]
  by (rule conjI)

text \<open>
  The mapping \<open>sku, property_3\<close> has two keys, so the generated name is \<open>property_3\<close>: its
  number definition is replaced by the default one, in second position as before.
\<close>

theorem addProperty_collision_replaces_witness:
  "Object_keys (properties (addProperty
       \<lparr>properties = [(js ''sku'', number_property), (js ''property_3'', number_property)],
        required = [js ''property_3'']\<rparr>)) = [js ''sku'', js ''property_3'']
   \<and> obj_get (properties (addProperty
       \<lparr>properties = [(js ''sku'', number_property), (js ''property_3'', number_property)],
        required = [js ''property_3'']\<rparr>)) (js ''property_3'') = Some default_property
   \<and> required (addProperty
       \<lparr>properties = [(js ''sku'', number_property), (js ''property_3'', number_property)],
        required = [js ''property_3'']\<rparr>) = [js ''property_3'']
   \<and> Object_keys (properties_or_empty (addNestedProperty
       (with_properties (Some [(js ''sku'', number_property), (js ''property_3'', number_property)])
          object_property))) = [js ''sku'', js ''property_3'']
   \<and> obj_get (properties_or_empty (addNestedProperty
       (with_properties (Some [(js ''sku'', number_property), (js ''property_3'', number_property)])
          object_property))) (js ''property_3'') = Some default_property"
proof -
  let ?ps = "[(js ''sku'', number_property), (js ''property_3'', number_property)]"
  let ?st = "\<lparr>properties = ?ps, required = [js ''property_3'']\<rparr>"
  let ?p = "with_properties (Some ?ps) object_property"
  have name: "js ''property_'' @ nat_to_string (length (Object_keys ?ps) + 1) = js ''property_3''"
    by (simp add: Object_keys_def js_def)
  have keys: "Object_keys ?ps = [js ''sku'', js ''property_3'']"
    by (simp add: Object_keys_def)
  have h1: "has_key (properties ?st)
              (js ''property_'' @ nat_to_string (length (Object_keys (properties ?st)) + 1))"
    using name keys by (simp add: has_key_def)
  have h2: "has_key (properties_or_empty ?p)
              (js ''property_'' @ nat_to_string (length (Object_keys (properties_or_empty ?p)) + 1))"
    using name keys by (simp add: has_key_def)
  show ?thesis
    using addProperty_collision_replaces [OF h1 h2] name keys by simp
qed

section \<open>Changing the type of a property\<close>

lemma type_onValueChange_attributes:
  "sp_type (type_onValueChange property value) = value
   \<and> sp_properties (type_onValueChange property value)
       = (if value = js ''object'' then sp_properties property else None)
   \<and> sp_required (type_onValueChange property value) = sp_required property"
  by (simp add: type_onValueChange_def)

text \<open>
  C4.  The object property with children \<open>a\<close> and \<open>c\<close> and required list \<open>[a]\<close> is
  retyped to \<open>string\<close>: its nested properties map is dropped, its nested required list
  \<open>[a]\<close> is still there.
\<close>

theorem type_change_keeps_required:
  "sp_type object_property = js ''object''
   \<and> sp_type (type_onValueChange object_property (js ''string'')) = js ''string''
   \<and> sp_properties (type_onValueChange object_property (js ''string'')) = None
   \<and> sp_required (type_onValueChange object_property (js ''string'')) = Some [js ''a'']"
  by (simp add: type_onValueChange_def object_property_def js_def)

section \<open>Editing the options of a select\<close>

lemma filter_enumerate_from:
  "map snd (filter (\<lambda>(i, _). i \<noteq> n + j) (enumerate n xs)) = take j xs @ drop (Suc j) xs"
proof (induction xs arbitrary: n j)
  case Nil
  then show ?case by simp
next
  case (Cons x xs)
  show ?case
  proof (cases j)
    case 0
    have "filter (\<lambda>(i, _). i \<noteq> n) (enumerate (Suc n) xs) = enumerate (Suc n) xs"
      by (rule filter_True) (auto simp: in_set_enumerate_eq)
    then show ?thesis using 0 by simp
  next
    case (Suc j')
    then show ?thesis using Cons.IH [of "Suc n" j'] by simp
  qed
qed

lemma filter_index_take_drop: "filter_index xs i = take i xs @ drop (Suc i) xs"
  using filter_enumerate_from [of 0 i xs] by (simp add: filter_index_def)

lemma enum_nonempty_inputType:
  "enum_nonempty p \<Longrightarrow> enum_nonempty (inputType_onValueChange p v)"
  by (auto simp: inputType_onValueChange_def enum_nonempty_def split: option.splits)

lemma inputType_select_initial:
  "sp_enum p = None \<Longrightarrow> sp_enum (inputType_onValueChange p (js ''select'')) = Some [[]]"
  by (simp add: inputType_onValueChange_def)

lemma enum_nonempty_addOption: "enum_nonempty (addOption_onClick p)"
  by (simp add: addOption_onClick_def enum_nonempty_def)

lemma enum_nonempty_option_onChange:
  "enum_nonempty p \<Longrightarrow> option_onChange p i t = Some p' \<Longrightarrow> enum_nonempty p'"
  by (auto simp: option_onChange_def enum_nonempty_def split: option.splits if_splits)

lemma enum_nonempty_removeOption:
  "removeOption_onClick p i = Some p' \<Longrightarrow> enum_nonempty p'"
  by (auto simp: removeOption_onClick_def enum_nonempty_def Let_def split: option.splits if_splits)

lemma option_onChange_in_range:
  "sp_enum p = Some e \<Longrightarrow> i < length e \<Longrightarrow>
     option_onChange p i t = Some (with_enum (Some (e[i := t])) p)"
  by (simp add: option_onChange_def)

lemma removeOption_in_range:
  assumes "sp_enum p = Some e" and "i < length e"
  shows "removeOption_onClick p i =
           Some (with_enum (if length e = 1 then None else Some (take i e @ drop (Suc i) e)) p)"
proof -
  define ys where "ys = take i e @ drop (Suc i) e"
  have kept: "filter_index e i = ys"
    by (simp add: ys_def filter_index_take_drop)
  have len: "length ys = length e - 1"
    using assms(2) by (simp add: ys_def)
  have run: "removeOption_onClick p i = Some (with_enum (if length ys > 0 then Some ys else None) p)"
    using assms(1) kept by (simp add: removeOption_onClick_def Let_def)
  show ?thesis
  proof (cases "length e = 1")
    case True
    with len have "length ys = 0" by simp
    with run True show ?thesis by simp
  next
    case False
    with len assms(2) have "length ys > 0" by arith
    with run False show ?thesis by (simp add: ys_def)
  qed
qed

text \<open>
  C8.  The enum-editing handlers keep the invariant that the enum attribute, when present,
  is a non-empty list: choosing an input type (select mode included) and editing an option
  preserve it, adding an option and removing an option establish it.  Select mode on a
  property without enum sets enum to the one-element list of the empty string.  For an
  existing option index, editing replaces that option and removing drops it, and removing
  the only option leaves enum absent instead of empty.
\<close>

theorem enum_editing_keeps_enum_nonempty:
  "(enum_nonempty p \<longrightarrow> enum_nonempty (inputType_onValueChange p v))
   \<and> (sp_enum p = None \<longrightarrow> sp_enum (inputType_onValueChange p (js ''select'')) = Some [[]])
   \<and> enum_nonempty (addOption_onClick p)
   \<and> (\<forall>p'. enum_nonempty p \<and> option_onChange p i t = Some p' \<longrightarrow> enum_nonempty p')
   \<and> (\<forall>p'. removeOption_onClick p i = Some p' \<longrightarrow> enum_nonempty p')
   \<and> (\<forall>e. sp_enum p = Some e \<and> i < length e \<longrightarrow>
         option_onChange p i t = Some (with_enum (Some (e[i := t])) p)
         \<and> removeOption_onClick p i =
             Some (with_enum (if length e = 1 then None else Some (take i e @ drop (Suc i) e)) p))"
  using enum_nonempty_inputType [of p v] inputType_select_initial [of p] enum_nonempty_addOption [of p]
    enum_nonempty_option_onChange [of p i t] enum_nonempty_removeOption [of p i]
    option_onChange_in_range [of p _ i t] removeOption_in_range [of p _ i]
  by blast

theorem enum_editing_keeps_enum_nonempty_witness:
  "enum_nonempty select_property
   \<and> enum_nonempty (inputType_onValueChange select_property (js ''select''))
   \<and> sp_enum (inputType_onValueChange default_property (js ''select'')) = Some [[]]
   \<and> enum_nonempty (addOption_onClick select_property)
   \<and> option_onChange select_property 0 (js ''blue'')
       = Some (with_enum (Some [js ''blue'']) select_property)
   \<and> removeOption_onClick select_property 0 = Some (with_enum None select_property)"
proof -
  have inv: "enum_nonempty select_property"
    by (simp add: enum_nonempty_def select_property_def)
  have absent: "sp_enum default_property = None"
    by (simp add: default_property_def)
  have present: "sp_enum select_property = Some [js ''red''] \<and> 0 < length [js ''red'']"
    by (simp add: select_property_def)
  from enum_editing_keeps_enum_nonempty [of select_property "js ''select''" 0 "js ''blue''"]
  have a: "enum_nonempty (inputType_onValueChange select_property (js ''select''))"
    and b: "enum_nonempty (addOption_onClick select_property)"
    and c: "option_onChange select_property 0 (js ''blue'')
              = Some (with_enum (Some ([js ''red''][0 := js ''blue''])) select_property)"
    and d: "removeOption_onClick select_property 0
              = Some (with_enum (if length [js ''red''] = 1 then None
                                 else Some (take 0 [js ''red''] @ drop (Suc 0) [js ''red''])) select_property)"
    using inv present by blast+
  from enum_editing_keeps_enum_nonempty [of default_property "js ''select''" 0 "js ''blue''"]
  have e: "sp_enum (inputType_onValueChange default_property (js ''select'')) = Some [[]]"
    using absent by blast
  show ?thesis
    using inv a b c d e by simp
qed

section \<open>The steps of the multi-step form\<close>

lemma stepsCount_div: "stepsCount True es = (length es + 2) div 3"
proof -
  have "\<lceil>(of_nat (length es) :: rat) / 3\<rceil> = - (- int (length es) div 3)"
    using ceiling_divide_eq_div [of "int (length es)" 3, where ?'a = rat] by simp
  also have "\<dots> = int ((length es + 2) div 3)"
    by (simp add: zdiv_int)
  finally show ?thesis
    by (simp add: stepsCount_def)
qed

lemma concat_chunks:
  "concat (map (\<lambda>i. take k (drop (i * k) xs)) [0 ..< m]) = take (m * k) xs"
proof (induction m)
  case 0
  then show ?case by simp
next
  case (Suc m)
  have "Suc m * k = m * k + k" by simp
  then have "take (Suc m * k) xs = take (m * k) xs @ take k (drop (m * k) xs)"
    by (simp only: take_add)
  with Suc show ?case by simp
qed

lemma step_is_chunk:
  "currentStepProperties True es i = take 3 (drop (i * 3) es)"
  by (simp add: currentStepProperties_def slice_def)

lemma step_plan_concat: "concat (step_plan True es) = es"
proof -
  have "concat (step_plan True es) = take (stepsCount True es * 3) es"
    using concat_chunks [of 3 es "stepsCount True es"]
    by (simp add: step_plan_def step_is_chunk [abs_def])
  moreover have "length es \<le> stepsCount True es * 3"
    by (simp add: stepsCount_div)
  ultimately show ?thesis by simp
qed

lemma step_length:
  assumes "i < stepsCount True es"
  shows "length (currentStepProperties True es i) = min 3 (length es - i * 3)"
    and "1 \<le> length (currentStepProperties True es i)"
    and "i + 1 < stepsCount True es \<Longrightarrow> length (currentStepProperties True es i) = 3"
  using assms by (simp_all add: step_is_chunk stepsCount_div)


text \<open>
  C3.  In multi-step mode the step count is the ceiling of a third of the number of
  top-level properties, that is \<open>(n + 2) div 3\<close>; step \<open>i\<close> shows the properties
  \<open>3i, 3i + 1, 3i + 2\<close> of the original list, in that order, three of them in every step
  but possibly the last, and at least one in every step; the steps concatenated in order
  give the original list back.  For seven properties there are three steps, of sizes
  3, 3 and 1.
\<close>

theorem multi_step_partition:
  "stepsCount True es = nat \<lceil>(of_nat (length es) :: rat) / 3\<rceil>
   \<and> stepsCount True es = (length es + 2) div 3
   \<and> length (step_plan True es) = stepsCount True es
   \<and> concat (step_plan True es) = es
   \<and> (\<forall>i < stepsCount True es.
         step_plan True es ! i = take 3 (drop (i * 3) es)
         \<and> length (step_plan True es ! i) = min 3 (length es - i * 3)
         \<and> 1 \<le> length (step_plan True es ! i)
         \<and> (i + 1 < stepsCount True es \<longrightarrow> length (step_plan True es ! i) = 3))
   \<and> (length es = 7 \<longrightarrow> stepsCount True es = 3 \<and> map length (step_plan True es) = [3, 3, 1])"
proof -
  have count: "stepsCount True es = (length es + 2) div 3"
    by (rule stepsCount_div)
  have nth: "\<And>i. i < stepsCount True es \<Longrightarrow> step_plan True es ! i = currentStepProperties True es i"
    by (simp add: step_plan_def)
  have steps: "\<forall>i < stepsCount True es.
         step_plan True es ! i = take 3 (drop (i * 3) es)
         \<and> length (step_plan True es ! i) = min 3 (length es - i * 3)
         \<and> 1 \<le> length (step_plan True es ! i)
         \<and> (i + 1 < stepsCount True es \<longrightarrow> length (step_plan True es ! i) = 3)"
  proof (intro allI impI)
    fix i
    assume i: "i < stepsCount True es"
    have eq: "step_plan True es ! i = currentStepProperties True es i"
      by (rule nth [OF i])
    show "step_plan True es ! i = take 3 (drop (i * 3) es)
         \<and> length (step_plan True es ! i) = min 3 (length es - i * 3)
         \<and> 1 \<le> length (step_plan True es ! i)
         \<and> (i + 1 < stepsCount True es \<longrightarrow> length (step_plan True es ! i) = 3)"
      unfolding eq
      using step_is_chunk [of es i] step_length(1,2) [OF i] step_length(3) [OF i]
      by blast
  qed
  have seven: "length es = 7 \<longrightarrow> stepsCount True es = 3 \<and> map length (step_plan True es) = [3, 3, 1]"
  proof
    assume n: "length es = 7"
    then have c3: "stepsCount True es = 3" by (simp add: count)
    have "[0 ..< 3] = [0, 1, 2]" by (simp add: upt_rec)
    with c3 n have "map length (step_plan True es) = [3, 3, 1]"
      by (simp add: step_plan_def step_is_chunk)
    with c3 show "stepsCount True es = 3 \<and> map length (step_plan True es) = [3, 3, 1]" by simp
  qed
  have ceil: "stepsCount True es = nat \<lceil>(of_nat (length es) :: rat) / 3\<rceil>"
    by (simp add: stepsCount_def)
  have len: "length (step_plan True es) = stepsCount True es"
    by (simp add: step_plan_def)
  from ceil count len step_plan_concat [of es] steps seven show ?thesis
    by blast
qed

theorem multi_step_partition_witness:
  "stepsCount True [js ''a'', js ''b'', js ''c'', js ''d'', js ''e'', js ''f'', js ''g''] = 3
   \<and> map length (step_plan True [js ''a'', js ''b'', js ''c'', js ''d'', js ''e'', js ''f'', js ''g''])
       = [3, 3, 1]
   \<and> concat (step_plan True [js ''a'', js ''b'', js ''c'', js ''d'', js ''e'', js ''f'', js ''g''])
       = [js ''a'', js ''b'', js ''c'', js ''d'', js ''e'', js ''f'', js ''g'']
   \<and> step_plan True [js ''a'', js ''b'', js ''c'', js ''d'', js ''e'', js ''f'', js ''g''] ! 2
       = [js ''g'']"
proof -
  let ?es = "[js ''a'', js ''b'', js ''c'', js ''d'', js ''e'', js ''f'', js ''g'']"
  have n: "length ?es = 7" by simp
  from multi_step_partition [of ?es] n
  have c: "stepsCount True ?es = 3"
    and l: "map length (step_plan True ?es) = [3, 3, 1]"
    and k: "concat (step_plan True ?es) = ?es"
    and s: "\<forall>i < stepsCount True ?es. step_plan True ?es ! i = take 3 (drop (i * 3) ?es)"
    by blast+
  from s c have "step_plan True ?es ! 2 = take 3 (drop (2 * 3) ?es)" by simp
  then have "step_plan True ?es ! 2 = [js ''g'']" by simp
  with c l k show ?thesis by simp
qed

section \<open>The compiled validation rules\<close>






lemma elements_accepted_all:
  "elements_accepted ve t xs = (\<forall>x \<in> set xs. zod_accepts ve t x)"
  by (induction xs) simp_all

lemma zod_accepts_meaning:
  "zod_accepts ve ZString v = (\<exists>s. v = VString s)"
  "zod_accepts ve ZEmail v = (\<exists>s. v = VString s \<and> ve s)"
  "zod_accepts ve ZDate v = (v = VDate True)"
  "zod_accepts ve ZNumber v = (\<exists>n. v = VNumber n \<and> n \<noteq> NaN)"
  "zod_accepts ve ZBoolean v = (\<exists>b. v = VBoolean b)"
  "zod_accepts ve (ZArray t) v = (\<exists>xs. v = VArray xs \<and> (\<forall>x \<in> set xs. zod_accepts ve t x))"
  "zod_accepts ve (ZObject []) v = (\<exists>data. v = VObject data)"
  "zod_accepts ve (ZOptional t) v = (v = VUndefined \<or> zod_accepts ve t v)"
  by (cases v; simp add: elements_accepted_all)+




section \<open>Number input: coercion before validation\<close>



lemma infinity_starts_literal:
  "take 8 t = js ''Infinity'' \<Longrightarrow> starts_unsigned_literal t"
  by (simp add: starts_unsigned_literal_def)









text \<open>Evaluation of \<open>parseFloat('12abc')\<close>: the prefix \<open>12\<close> is read, the rest ignored.\<close>

lemma log2_floor_12: "log2_floor 12 = 3"
  by simp






text \<open>
  The rounding in \<open>parseFloat\<close>.  A value of \<open>2^1024\<close> or more becomes \<open>Infinity\<close>
  and a positive value below \<open>2^-1075\<close> becomes 0; \<open>1e400\<close>, \<open>1e-400\<close> and \<open>0.1\<close>
  are read as \<open>Infinity\<close>, 0 and the binary64 value nearest to one tenth.
\<close>

lemma log2_floor_bounds:
  "0 < n \<Longrightarrow> 2 ^ log2_floor n \<le> n \<and> n < 2 ^ Suc (log2_floor n)"
proof (induction n rule: log2_floor.induct)
  case (1 n)
  show ?case
  proof (cases "n < 2")
    case True
    with "1.prems" have "n = 1" by simp
    then show ?thesis by simp
  next
    case False
    then have half: "0 < n div 2" by simp
    from "1.IH" [OF False half]
    have lower: "2 ^ log2_floor (n div 2) \<le> n div 2"
      and upper: "n div 2 < 2 ^ Suc (log2_floor (n div 2))" by simp_all
    have step: "log2_floor n = Suc (log2_floor (n div 2))"
      using False by (subst log2_floor.simps) simp
    from lower have "2 * 2 ^ log2_floor (n div 2) \<le> n" by linarith
    moreover from upper have "n < 2 * 2 ^ Suc (log2_floor (n div 2))" by linarith
    ultimately show ?thesis
      unfolding step by simp
  qed
qed

lemma round_half_even_floor: "\<lfloor>m\<rfloor> \<le> round_half_even m"
  by (simp add: round_half_even_def Let_def)

lemma pow2_scale: "pow2 (int l - int k) * 2 ^ k = 2 ^ l"
proof (cases "k \<le> l")
  case True
  then have "pow2 (int l - int k) = 2 ^ (l - k)"
    by (simp add: pow2_def nat_diff_distrib)
  then show ?thesis
    using True by (simp add: power_add [symmetric])
next
  case False
  then have "pow2 (int l - int k) = 1 / 2 ^ (k - l)"
    by (simp add: pow2_def nat_diff_distrib)
  moreover have "(2::rat) ^ k = 2 ^ (k - l) * 2 ^ l"
    using False by (simp add: power_add [symmetric])
  ultimately show ?thesis
    by simp
qed

lemma round_magnitude_lower:
  fixes N :: nat
  assumes big: "(2::rat) ^ N \<le> q"
  shows "(2::rat) ^ N \<le> round_magnitude q"
proof -
  have "(1::rat) \<le> 2 ^ N" by simp
  then have one: "1 \<le> q" using big by (rule order_trans)
  then have pos: "q \<noteq> 0" by simp
  define n where "n = nat \<lfloor>q\<rfloor>"
  define l where "l = log2_floor n"
  have "(2::int) ^ N \<le> \<lfloor>q\<rfloor>"
    using big by (simp add: le_floor_iff)
  then have n_big: "2 ^ N \<le> n"
    unfolding n_def by (simp add: le_nat_iff)
  have "(0::nat) < 2 ^ N" by simp
  then have n_pos: "0 < n"
    using n_big by (rule less_le_trans)
  from log2_floor_bounds [OF n_pos]
  have lower: "2 ^ l \<le> n" and upper: "n < 2 ^ Suc l"
    unfolding l_def by simp_all
  from n_big upper have "(2::nat) ^ N < 2 ^ Suc l" by (rule le_less_trans)
  then have "N < Suc l"
    using power_less_imp_less_exp [of "2::nat" N "Suc l"] by simp
  then have l_big: "N \<le> l" by simp
  have n_le: "(of_nat n :: rat) \<le> q"
    unfolding n_def using one by (simp add: of_nat_nat)
  have q_lower: "(2::rat) ^ l \<le> q"
  proof -
    have "(2::rat) ^ l = of_nat (2 ^ l)" by simp
    also have "\<dots> \<le> of_nat n" using lower by (simp only: of_nat_le_iff)
    also have "\<dots> \<le> q" by (rule n_le)
    finally show ?thesis .
  qed
  have e: "binary_exponent q = int l"
    using one by (simp add: binary_exponent_def n_def l_def)
  define quantum where "quantum = pow2 (int l - 52)"
  define c :: int where "c = 2 ^ 52"
  have quantum_pos: "0 < quantum"
    by (simp add: quantum_def pow2_def)
  have bound: "quantum * of_int c = 2 ^ l"
    using pow2_scale [of l 52] by (simp add: quantum_def c_def)
  define m where "m = q / quantum"
  have "of_int c * quantum \<le> q"
    using bound q_lower by (simp add: mult.commute)
  then have "of_int c \<le> m"
    unfolding m_def using quantum_pos by (simp only: pos_le_divide_eq)
  then have "c \<le> \<lfloor>m\<rfloor>"
    by (simp only: le_floor_iff)
  then have "c \<le> round_half_even m"
    using round_half_even_floor [of m] by (rule order_trans)
  then have "(of_int c :: rat) \<le> of_int (round_half_even m)"
    by (simp only: of_int_le_iff)
  then have "of_int c * quantum \<le> of_int (round_half_even m) * quantum"
    using quantum_pos by (simp only: mult_le_cancel_right_pos)
  moreover have "round_magnitude q = of_int (round_half_even m) * quantum"
    using pos by (simp add: round_magnitude_def Let_def e quantum_def m_def)
  moreover have "of_int c * quantum = 2 ^ l"
    using bound by (simp only: mult.commute)
  ultimately have "(2::rat) ^ l \<le> round_magnitude q"
    by simp
  moreover have "(2::rat) ^ N \<le> 2 ^ l"
    using l_big by (simp add: power_increasing)
  ultimately show ?thesis
    by (rule order_trans [rotated])
qed

lemma to_binary64_overflow:
  assumes "(2::rat) ^ 1024 \<le> q"
  shows "to_binary64 q = PosInfinity"
proof -
  have "(0::rat) < 2 ^ 1024" by simp
  then have pos: "0 < q" using assms by (rule less_le_trans)
  then have "\<bar>q\<bar> = q" by simp
  moreover have "pow2 1024 = 2 ^ 1024"
    by (simp add: pow2_def)
  ultimately show ?thesis
    using round_magnitude_lower [OF assms] pos
    by (simp add: to_binary64_def Let_def)
qed


lemma parse_1e400: "parseFloat (js ''1e400'') = PosInfinity"
proof -
  have digits: "takeWhile is_digit (js ''1e400'') = [49]"
    "dropWhile is_digit (js ''1e400'') = js ''e400''"
    by (simp_all add: js_def is_digit_def)
  have mantissa: "index_value [49] = 1"
    by (simp add: index_value_def)
  have exponent: "exponent_part (js ''e400'') = 10 ^ index_value [52, 48, 48]"
    by (simp add: exponent_part_def js_def is_digit_def)
  have four_hundred: "index_value [52, 48, 48] = 400"
    by (simp add: index_value_def)
  have no_infinity: "take 8 (js ''1e400'') \<noteq> js ''Infinity''"
    by (simp add: js_def)
  have no_dot: "hd (js ''e400'') \<noteq> 46"
    by (simp add: js_def)
  have "parse_unsigned (js ''1e400'') = to_binary64 (10 ^ index_value [52, 48, 48])"
    using digits mantissa no_infinity no_dot
    by (simp add: parse_unsigned_def Let_def exponent)
  then have parsed: "parse_unsigned (js ''1e400'') = to_binary64 (10 ^ 400)"
    by (simp only: four_hundred)
  have "(2::rat) ^ 1024 \<le> 2 ^ (3 * 400)"
    by (rule power_increasing) simp_all
  also have "(2::rat) ^ (3 * 400) = (2 ^ 3) ^ 400"
    by (rule power_mult)
  also have "\<dots> \<le> 10 ^ 400"
    by (rule power_mono) simp_all
  finally have "to_binary64 (10 ^ 400) = PosInfinity"
    by (rule to_binary64_overflow)
  moreover have "parseFloat (js ''1e400'') = parse_unsigned (js ''1e400'')"
    by (simp add: parseFloat_def js_def is_whitespace_def)
  ultimately show ?thesis
    by (simp only: parsed)
qed

lemma parse_tenth:
  "parseFloat (js ''0.1'') = Finite (3602879701896397 / 36028797018963968)"
proof -
  have digits: "takeWhile is_digit (js ''0.1'') = [48]"
    "dropWhile is_digit (js ''0.1'') = js ''.1''"
    "takeWhile is_digit (tl (js ''.1'')) = [49]"
    by (simp_all add: js_def is_digit_def)
  have rest: "exponent_part (dropWhile is_digit (tl (js ''.1''))) = 1"
    by (simp add: js_def is_digit_def exponent_part_def)
  have number: "index_value ([48] @ [49]) = 1"
    by (simp add: index_value_def)
  have no_infinity: "take 8 (js ''0.1'') \<noteq> js ''Infinity''"
    by (simp add: js_def)
  have dot: "js ''.1'' \<noteq> []" "hd (js ''.1'') = 46"
    by (simp_all add: js_def)
  have "parse_unsigned (js ''0.1'') = to_binary64 (1 / 10)"
    using digits number no_infinity dot
    by (simp add: parse_unsigned_def Let_def rest)
  moreover have "binary_exponent (1 / 10) = - 4"
    by (simp add: binary_exponent_def)
  moreover have "pow2 (- 56) = 1 / 2 ^ 56"
    by (simp add: pow2_def)
  moreover have "\<lfloor>(36028797018963968 :: rat) / 5\<rfloor> = 7205759403792793"
    by (rule floor_unique) simp_all
  then have "round_half_even (36028797018963968 / 5) = 7205759403792794"
    by (simp add: round_half_even_def Let_def)
  ultimately have "parse_unsigned (js ''0.1'') = Finite (3602879701896397 / 36028797018963968)"
    by (simp add: to_binary64_def round_magnitude_def Let_def pow2_def del: log2_floor.simps)
  moreover have "parseFloat (js ''0.1'') = parse_unsigned (js ''0.1'')"
    by (simp add: parseFloat_def js_def is_whitespace_def)
  ultimately show ?thesis
    by simp
qed

lemma log2_floor_lower:
  fixes N :: nat
  assumes "2 ^ N \<le> n"
  shows "N \<le> log2_floor n"
proof -
  have "(0::nat) < 2 ^ N" by simp
  then have "0 < n" using assms by (rule less_le_trans)
  from log2_floor_bounds [OF this] have "n < 2 ^ Suc (log2_floor n)" by simp
  with assms have "(2::nat) ^ N < 2 ^ Suc (log2_floor n)" by (rule le_less_trans)
  then have "N < Suc (log2_floor n)"
    using power_less_imp_less_exp [of "2::nat" N "Suc (log2_floor n)"] by simp
  then show ?thesis by simp
qed

lemma round_magnitude_underflow:
  assumes pos: "0 < q" and small: "q * 2 ^ 1075 < 1"
  shows "round_magnitude q = 0"
proof -
  define K :: nat where "K = 1074"
  define c :: rat where "c = 2 ^ K"
  have c_pos: "0 < c" and c_one: "1 \<le> c" and c_int: "c = of_int (2 ^ K)"
    by (simp_all add: c_def)
  have "q * 2 ^ Suc K < 1"
    using small by (simp add: K_def)
  then have half: "q * c < 1 / 2"
    by (simp add: c_def)
  then have less_one: "q * c < 1" by simp
  have "q * 1 \<le> q * c"
    using pos c_one by (intro mult_left_mono) simp_all
  then have below_one: "q < 1" using less_one by simp
  have "c < 1 / q"
    using less_one pos by (simp add: pos_less_divide_eq mult.commute)
  also have "1 / q \<le> of_int \<lceil>1 / q\<rceil>"
    by (rule le_of_int_ceiling)
  finally have "(2::int) ^ K < \<lceil>1 / q\<rceil>"
    by (simp only: c_int of_int_less_iff)
  then have "int (2 ^ K) + 1 \<le> \<lceil>1 / q\<rceil>"
    by simp
  then have "2 ^ K + 1 \<le> nat \<lceil>1 / q\<rceil>"
    by (simp only: le_nat_iff of_nat_add of_nat_1)
  then have "2 ^ K \<le> nat \<lceil>1 / q\<rceil> - 1"
    by simp
  then have "K \<le> log2_floor (nat \<lceil>1 / q\<rceil> - 1)"
    by (rule log2_floor_lower)
  then have "1022 \<le> Suc (log2_floor (nat \<lceil>1 / q\<rceil> - 1))"
    by (simp add: K_def del: log2_floor.simps)
  then have e: "max (binary_exponent q) (- 1022) = - 1022"
    using below_one by (simp add: binary_exponent_def del: log2_floor.simps)
  have "pow2 (- int K) = 1 / 2 ^ K"
    by (simp add: pow2_def)
  moreover have "- 1022 - 52 = - int K"
    by (simp add: K_def)
  ultimately have quantum: "pow2 (- 1022 - 52) = 1 / c"
    by (simp only: c_def)
  have m: "q / (1 / c) = q * c" by simp
  have "0 \<le> q * c" using pos c_pos by simp
  with less_one have floor: "\<lfloor>q * c\<rfloor> = 0"
    by (simp add: floor_eq_iff)
  have "round_half_even (q * c) = 0"
    using half by (simp add: round_half_even_def Let_def floor)
  then have "of_int (round_half_even (q * c)) * (1 / c) = 0"
    by simp
  moreover have "round_magnitude q = of_int (round_half_even (q * c)) * (1 / c)"
    using pos by (simp only: round_magnitude_def Let_def e quantum m) simp
  ultimately show ?thesis
    by simp
qed


lemma to_binary64_underflow:
  assumes "0 < q" and "q * 2 ^ 1075 < 1"
  shows "to_binary64 q = Finite 0"
proof -
  from assms(1) have "\<bar>q\<bar> = q" by simp
  moreover have "\<not> pow2 1024 \<le> 0"
    by (simp add: pow2_def)
  ultimately show ?thesis
    using assms(1) by (simp add: to_binary64_def Let_def round_magnitude_underflow [OF assms])
qed

lemma parse_1e_minus_400: "parseFloat (js ''1e-400'') = Finite 0"
proof -
  have digits: "takeWhile is_digit (js ''1e-400'') = [49]"
    "dropWhile is_digit (js ''1e-400'') = js ''e-400''"
    by (simp_all add: js_def is_digit_def)
  have mantissa: "index_value [49] = 1"
    by (simp add: index_value_def)
  have exponent: "exponent_part (js ''e-400'') = 1 / 10 ^ index_value [52, 48, 48]"
    by (simp add: exponent_part_def js_def is_digit_def)
  have four_hundred: "index_value [52, 48, 48] = 400"
    by (simp add: index_value_def)
  have no_infinity: "take 8 (js ''1e-400'') \<noteq> js ''Infinity''"
    by (simp add: js_def)
  have no_dot: "hd (js ''e-400'') \<noteq> 46"
    by (simp add: js_def)
  have "parse_unsigned (js ''1e-400'') = to_binary64 (1 / 10 ^ index_value [52, 48, 48])"
    using digits mantissa no_infinity no_dot
    by (simp add: parse_unsigned_def Let_def exponent)
  then have parsed: "parse_unsigned (js ''1e-400'') = to_binary64 (1 / 10 ^ 400)"
    by (simp only: four_hundred)
  have "(2::rat) ^ 1075 < 2 ^ (3 * 400)"
    by (rule power_strict_increasing) simp_all
  also have "(2::rat) ^ (3 * 400) = (2 ^ 3) ^ 400"
    by (rule power_mult)
  also have "\<dots> \<le> 10 ^ 400"
    by (rule power_mono) simp_all
  finally have "(2::rat) ^ 1075 / 10 ^ 400 < 1"
    by (simp only: divide_less_eq_1_pos zero_less_power zero_less_numeral)
  then have "1 / 10 ^ 400 * (2::rat) ^ 1075 < 1"
    by (simp only: times_divide_eq_left mult_1)
  moreover have "(0::rat) < 1 / 10 ^ 400"
    by (simp only: zero_less_divide_1_iff zero_less_power zero_less_numeral)
  ultimately have "to_binary64 (1 / 10 ^ 400) = Finite 0"
    by (rule to_binary64_underflow [rotated])
  moreover have "parseFloat (js ''1e-400'') = parse_unsigned (js ''1e-400'')"
    by (simp add: parseFloat_def js_def is_whitespace_def)
  ultimately show ?thesis
    by (simp only: parsed)
qed




end
